theory Spec2Isabelle
  imports Complex_Main
begin

section \<open>The Shhed client: data model\<close>

text \<open>
  The client (\<^verbatim>\<open>src/src/Shhed.ts\<close>, \<^verbatim>\<open>src/src/types.ts\<close>) builds two HTTP requests and
  maps their outcomes to a value or a thrown error.

  A JavaScript string is a sequence of UTF-16 code units, which may hold a surrogate that
  has no partner. It is modelled as a \<^typ>\<open>string\<close>, the bytes of its generalized UTF-8
  encoding: every code point is encoded as UTF-8 encodes it, a surrogate pair as the four
  bytes of its code point, and a lone surrogate as three bytes of its own, \<^verbatim>\<open>ED\<close>, then a
  byte from \<^verbatim>\<open>A0\<close> to \<^verbatim>\<open>BF\<close>, then a continuation byte. Every JavaScript string has
  exactly one such encoding, the empty string is the empty list, an ASCII character is one
  byte, and the byte \<^verbatim>\<open>ED\<close> occurs only as the first byte of a three-byte sequence. The
  strings the client concatenates always meet at an ASCII literal, so concatenation is
  \<^term>\<open>(@)\<close>. An optional property of type \<^verbatim>\<open>string\<close> is a \<^typ>\<open>string option\<close>,
  \<^const>\<open>None\<close> being \<^verbatim>\<open>undefined\<close>.
\<close>

record ShhedConfig =
  access_key :: string
  secret_key :: "string option"
  projectId :: string
  endpoint :: "string option"

text \<open>
  A parsed JSON value, as \<^verbatim>\<open>response.json()\<close> resolves to. A number is the value of
  the parsed double, which is a rational (the infinity that a literal beyond the range of
  the doubles parses to is not a value of the model). An object is the list of its
  properties.
\<close>

datatype json =
    JNull
  | JBool bool
  | JNumber rat
  | JString string
  | JArray "json list"
  | JObject "(string \<times> json) list"

text \<open>
  \<^verbatim>\<open>class ShhedSDKError extends Error\<close>: the message of the \<^verbatim>\<open>Error\<close> it extends, the
  status code, and the optional response (\<^const>\<open>None\<close> when the constructor gets two
  arguments).
\<close>

record ShhedSDKError =
  message :: string
  statusCode :: nat
  response :: "json option"

text \<open>
  What a \<^verbatim>\<open>throw\<close> or a rejected promise carries, by the two \<^verbatim>\<open>instanceof\<close> tests of the
  \<^verbatim>\<open>catch\<close> blocks: an instance of \<^verbatim>\<open>ShhedSDKError\<close>; any other instance of
  \<^verbatim>\<open>Error\<close>, with its message; a value that is no \<^verbatim>\<open>Error\<close> at all.
\<close>

datatype thrown =
    JsError string
  | SdkError ShhedSDKError
  | NonError

text \<open>
  The argument of \<^verbatim>\<open>fetch(url, {method, headers})\<close>; the field \<open>httpMethod\<close> is the
  property \<^verbatim>\<open>method\<close>. The headers are the properties of the object literal, in order.
\<close>

record request =
  url :: string
  httpMethod :: string
  headers :: "(string \<times> string) list"

text \<open>
  The part of a \<^verbatim>\<open>Response\<close> the client reads: the status, the status text, and what
  \<^verbatim>\<open>response.json()\<close> settles to (rejected when the body is not valid JSON).
\<close>

record response =
  status :: nat
  statusText :: string
  json :: "thrown + json"

text \<open>
  \<^verbatim>\<open>response.ok\<close>, which the Fetch standard defines as: the status is in the range 200 to
  299.
\<close>

definition ok :: "response \<Rightarrow> bool" where
  "ok r = (200 \<le> status r \<and> status r \<le> 299)"

text \<open>
  The platform the client runs on, taken as a parameter:
  \<^item> \<open>fetch\<close>: what the promise of \<^verbatim>\<open>fetch(url, init)\<close> (package \<^verbatim>\<open>cross-fetch\<close>) settles to
    for this request;
  \<^item> \<open>parseURL\<close>: whether \<^verbatim>\<open>new URL(s)\<close> returns rather than throws;
  \<^item> \<open>toString\<close>: the string conversion that the \<^verbatim>\<open>Error\<close> constructor applies to a
    message that is not a string (it throws a \<^verbatim>\<open>TypeError\<close> for an object whose own
    \<^verbatim>\<open>toString\<close> and \<^verbatim>\<open>valueOf\<close> yield no primitive value);
  \<^item> \<open>nullReadMessage\<close>: the message of the \<^verbatim>\<open>TypeError\<close> raised by reading the named
    property of \<^verbatim>\<open>null\<close>;
  \<^item> \<open>malformedURIMessage\<close>: the message of the \<^verbatim>\<open>URIError\<close> that \<^verbatim>\<open>encodeURIComponent\<close>
    throws.
\<close>

record runtime =
  fetch :: "request \<Rightarrow> thrown + response"
  parseURL :: "string \<Rightarrow> bool"
  toString :: "json \<Rightarrow> thrown + string"
  nullReadMessage :: "string \<Rightarrow> string"
  malformedURIMessage :: string

text \<open>
  What a call does to the outside world, in order: a request handed to \<open>fetch\<close>, a call of
  \<^verbatim>\<open>response.json()\<close>.
\<close>

datatype event = Fetch request | ReadJson

text \<open>\<^verbatim>\<open>class Shhed\<close>: its two private fields.\<close>

record Shhed =
  config :: ShhedConfig
  endpoint :: string


section \<open>JavaScript primitives the client uses\<close>

text \<open>Truthiness of an optional string: \<^verbatim>\<open>undefined\<close> and \<^verbatim>\<open>''\<close> are falsy.\<close>

definition truthyString :: "string option \<Rightarrow> bool" where
  "truthyString s = (case s of None \<Rightarrow> False | Some v \<Rightarrow> v \<noteq> [])"

text \<open>
  Truthiness of a property read from a JSON value: \<^verbatim>\<open>undefined\<close>, \<^verbatim>\<open>null\<close>, \<^verbatim>\<open>false\<close>,
  \<^verbatim>\<open>0\<close> and \<^verbatim>\<open>''\<close> are falsy, everything else (every array and object too) is truthy.
\<close>

fun truthy :: "json option \<Rightarrow> bool" where
  "truthy None = False"
| "truthy (Some JNull) = False"
| "truthy (Some (JBool b)) = b"
| "truthy (Some (JNumber n)) = (n \<noteq> 0)"
| "truthy (Some (JString s)) = (s \<noteq> [])"
| "truthy (Some (JArray xs)) = True"
| "truthy (Some (JObject ps)) = True"

text \<open>
  \<^verbatim>\<open>v.p\<close> for a parsed JSON value \<open>v\<close> and a property name \<open>p\<close> that no prototype defines
  (\<^verbatim>\<open>detail\<close>, \<^verbatim>\<open>key_value\<close>): a \<^verbatim>\<open>TypeError\<close> on \<^verbatim>\<open>null\<close>; the property of an object, or
  \<^verbatim>\<open>undefined\<close> when it has none (a later member of the same name overrides an earlier
  one); \<^verbatim>\<open>undefined\<close> on a boolean, number, string or array.
\<close>

fun getProperty :: "runtime \<Rightarrow> json \<Rightarrow> string \<Rightarrow> thrown + json option" where
  "getProperty rt JNull p = Inl (JsError (nullReadMessage rt p))"
| "getProperty rt (JObject ps) p = Inr (map_of (rev ps) p)"
| "getProperty rt v p = Inr None"

text \<open>
  The string conversion of a JSON value: a string is its own conversion, the platform
  converts the rest.
\<close>

fun ToString :: "runtime \<Rightarrow> json \<Rightarrow> thrown + string" where
  "ToString rt (JString s) = Inr s"
| "ToString rt v = toString rt v"

text \<open>
  \<^verbatim>\<open>new ShhedSDKError(message, statusCode, response)\<close> for a message that is a JSON value:
  \<^verbatim>\<open>super(message)\<close> converts the message to a string, which can throw.
\<close>

definition newShhedSDKError ::
  "runtime \<Rightarrow> json \<Rightarrow> nat \<Rightarrow> json option \<Rightarrow> thrown + ShhedSDKError" where
  "newShhedSDKError rt msg code resp =
     (case ToString rt msg of
        Inl t \<Rightarrow> Inl t
      | Inr m \<Rightarrow> Inr \<lparr>message = m, statusCode = code, response = resp\<rparr>)"

text \<open>\<^verbatim>\<open>s.startsWith(p)\<close>.\<close>

definition startsWith :: "string \<Rightarrow> string \<Rightarrow> bool" where
  "startsWith s p = (take (length p) s = p)"

text \<open>\<^verbatim>\<open>s.replace(/\/$/, '')\<close>: one slash at the very end of the string is removed.\<close>

definition stripTrailingSlash :: "string \<Rightarrow> string" where
  "stripTrailingSlash s = (if s \<noteq> [] \<and> last s = CHR ''/'' then butlast s else s)"

text \<open>A number in a template literal: the decimal digits of a natural number.\<close>

definition digitChar :: "nat \<Rightarrow> char" where
  "digitChar d = ''0123456789'' ! (d mod 10)"

function showNat :: "nat \<Rightarrow> string" where
  "showNat n = (if n < 10 then [digitChar n] else showNat (n div 10) @ [digitChar (n mod 10)])"
  by pat_completeness auto
termination
  by (relation "measure id") auto

declare showNat.simps [simp del]

text \<open>
  \<^verbatim>\<open>encodeURIComponent\<close>. It throws a \<^verbatim>\<open>URIError\<close> when the string holds a lone surrogate:
  the byte \<^verbatim>\<open>ED\<close> followed by a byte from \<^verbatim>\<open>A0\<close> to \<^verbatim>\<open>BF\<close>. Otherwise the letters, the
  digits and \<^verbatim>\<open>- _ . ! ~ * ' ( )\<close> stand for themselves, and every other byte of the UTF-8
  encoding becomes \<^verbatim>\<open>%\<close> and two upper-case hexadecimal digits.
\<close>

fun hasLoneSurrogate :: "string \<Rightarrow> bool" where
  "hasLoneSurrogate (a # b # s) =
     ((a = CHR 0xED \<and> (0xA0 :: nat) \<le> of_char b \<and> (of_char b :: nat) \<le> 0xBF)
      \<or> hasLoneSurrogate (b # s))"
| "hasLoneSurrogate s = False"

definition uriUnreserved :: "char \<Rightarrow> bool" where
  "uriUnreserved c =
     (c \<in> set (''ABCDEFGHIJKLMNOPQRSTUVWXYZabcdefghijklmnopqrstuvwxyz0123456789''
               @ ''-_.!~*'' @ [CHR 0x27] @ ''()''))"

definition hexDigit :: "nat \<Rightarrow> char" where
  "hexDigit d = ''0123456789ABCDEF'' ! (d mod 16)"

definition percentEncode :: "char \<Rightarrow> string" where
  "percentEncode c =
     [CHR ''%'', hexDigit ((of_char c :: nat) div 16), hexDigit ((of_char c :: nat) mod 16)]"

definition encodeBytes :: "string \<Rightarrow> string" where
  "encodeBytes s = concat (map (\<lambda>c. if uriUnreserved c then [c] else percentEncode c) s)"

definition encodeURIComponent :: "runtime \<Rightarrow> string \<Rightarrow> thrown + string" where
  "encodeURIComponent rt s =
     (if hasLoneSurrogate s then Inl (JsError (malformedURIMessage rt))
      else Inr (encodeBytes s))"


section \<open>Construction\<close>

text \<open>
  \<^verbatim>\<open>Shhed.validateConfig\<close>: four checks in the order of the source, each throwing a plain
  \<^verbatim>\<open>Error\<close>. The endpoint is parsed only when it is truthy.
\<close>

definition validateConfig :: "runtime \<Rightarrow> ShhedConfig \<Rightarrow> thrown + unit" where
  \<open>validateConfig rt cfg =
     (if access_key cfg = [] then Inl (JsError ''Shhed access_key is required'')
      else if projectId cfg = [] then Inl (JsError ''Shhed projectId is required'')
      else if \<not> startsWith (access_key cfg) ''ak_''
        then Inl (JsError ''Shhed access_key must start with "ak_"'')
      else if truthyString (ShhedConfig.endpoint cfg)
        then (if parseURL rt (the (ShhedConfig.endpoint cfg)) then Inr ()
              else Inl (JsError ''Shhed endpoint must be a valid URL''))
      else Inr ())\<close>

text \<open>\<^verbatim>\<open>config.endpoint || 'https://api.shhed.io'\<close>.\<close>

definition defaultEndpoint :: string where
  "defaultEndpoint = ''https://api.shhed.io''"

definition endpointOrDefault :: "ShhedConfig \<Rightarrow> string" where
  "endpointOrDefault cfg =
     (if truthyString (ShhedConfig.endpoint cfg) then the (ShhedConfig.endpoint cfg)
      else defaultEndpoint)"

text \<open>The constructor: validate, then store the configuration and the endpoint.\<close>

definition constructor :: "runtime \<Rightarrow> ShhedConfig \<Rightarrow> thrown + Shhed" where
  "constructor rt cfg =
     (case validateConfig rt cfg of
        Inl e \<Rightarrow> Inl e
      | Inr _ \<Rightarrow> Inr \<lparr>config = cfg, endpoint = endpointOrDefault cfg\<rparr>)"


section \<open>The operation \<^verbatim>\<open>get\<close>\<close>

text \<open>The authorization token, by the truthiness of \<^verbatim>\<open>secret_key\<close>.\<close>

definition authToken :: "ShhedConfig \<Rightarrow> string" where
  "authToken cfg =
     (if truthyString (secret_key cfg) then access_key cfg @ '':'' @ the (secret_key cfg)
      else access_key cfg)"

text \<open>
  The URL, built before the \<^verbatim>\<open>try\<close> block: what \<^verbatim>\<open>encodeURIComponent\<close> throws leaves
  \<^verbatim>\<open>get\<close> as it is.
\<close>

definition getUrl :: "runtime \<Rightarrow> Shhed \<Rightarrow> string \<Rightarrow> thrown + string" where
  "getUrl rt c keyName =
     (case encodeURIComponent rt keyName of
        Inl t \<Rightarrow> Inl t
      | Inr enc \<Rightarrow> Inr (stripTrailingSlash (Shhed.endpoint c) @ ''/v1/keys/'' @ enc))"

definition getHeaders :: "Shhed \<Rightarrow> (string \<times> string) list" where
  "getHeaders c =
     [(''Authorization'', ''Bearer '' @ authToken (config c)),
      (''X-Project-ID'', projectId (config c)),
      (''Content-Type'', ''application/json'')]"

text \<open>
  The argument of \<^verbatim>\<open>fetch\<close>, as the statements before the \<^verbatim>\<open>try\<close> block build it: the URL,
  which can throw, then the headers.
\<close>

definition getRequest :: "runtime \<Rightarrow> Shhed \<Rightarrow> string \<Rightarrow> thrown + request" where
  "getRequest rt c keyName =
     (case getUrl rt c keyName of
        Inl t \<Rightarrow> Inl t
      | Inr u \<Rightarrow> Inr \<lparr>url = u, httpMethod = ''GET'', headers = getHeaders c\<rparr>)"

text \<open>
  The body of the \<^verbatim>\<open>try\<close> block: the events it causes and the value it returns
  (\<^const>\<open>None\<close> is \<^verbatim>\<open>undefined\<close>) or what it throws. On a response that is not
  \<^verbatim>\<open>ok\<close>, the message handed to the error's constructor is
  \<^verbatim>\<open>error.detail || `HTTP ${response.status}: ${response.statusText}`\<close>: the detail when it
  is truthy, the synthesized string otherwise.
\<close>

definition getTry :: "runtime \<Rightarrow> request \<Rightarrow> event list \<times> (thrown + json option)" where
  "getTry rt req =
     (case fetch rt req of
        Inl t \<Rightarrow> ([Fetch req], Inl t)
      | Inr resp \<Rightarrow>
          (case json resp of
             Inl t \<Rightarrow> ([Fetch req, ReadJson], Inl t)
           | Inr responseData \<Rightarrow>
               ([Fetch req, ReadJson],
                if \<not> ok resp then
                  (case getProperty rt responseData ''detail'' of
                     Inl t \<Rightarrow> Inl t
                   | Inr detail \<Rightarrow>
                       (case newShhedSDKError rt
                               (if truthy detail then the detail
                                else JString
                                  (''HTTP '' @ showNat (status resp) @ '': '' @ statusText resp))
                               (status resp) (Some responseData) of
                          Inl t \<Rightarrow> Inl t
                        | Inr e \<Rightarrow> Inl (SdkError e)))
                else getProperty rt responseData ''key_value'')))"

text \<open>
  The \<^verbatim>\<open>catch\<close> block of \<^verbatim>\<open>get\<close>: what it throws for what it caught. The messages of
  the errors it builds are template strings, which are their own string conversion.
\<close>

fun getCatch :: "string \<Rightarrow> thrown \<Rightarrow> thrown" where
  \<open>getCatch keyName (SdkError e) = SdkError e\<close>
| \<open>getCatch keyName (JsError m) =
     SdkError \<lparr>message = ''Failed to fetch key "'' @ keyName @ ''": '' @ m,
               statusCode = 0, response = None\<rparr>\<close>
| \<open>getCatch keyName NonError =
     SdkError \<lparr>message = ''Failed to fetch key "'' @ keyName @ ''": Unknown error'',
               statusCode = 0, response = None\<rparr>\<close>

text \<open>
  \<^verbatim>\<open>get\<close>: the check of the name and the building of the request are outside the \<^verbatim>\<open>try\<close>
  block, so what they throw is not caught; what the \<^verbatim>\<open>try\<close> block throws goes through
  the \<^verbatim>\<open>catch\<close> block.
\<close>

definition get :: "runtime \<Rightarrow> Shhed \<Rightarrow> string \<Rightarrow> event list \<times> (thrown + json option)" where
  "get rt c keyName =
     (if keyName = [] then ([], Inl (JsError ''Key name is required''))
      else
        (case getRequest rt c keyName of
           Inl t \<Rightarrow> ([], Inl t)
         | Inr req \<Rightarrow>
             (case getTry rt req of
                (evs, Inl t) \<Rightarrow> (evs, Inl (getCatch keyName t))
              | (evs, Inr v) \<Rightarrow> (evs, Inr v))))"


section \<open>The operation \<^verbatim>\<open>test\<close>\<close>

text \<open>
  The request, the \<^verbatim>\<open>try\<close> block (which never calls \<^verbatim>\<open>response.json()\<close>) and the
  \<^verbatim>\<open>catch\<close> block of \<^verbatim>\<open>test\<close>.
\<close>

definition testRequest :: "Shhed \<Rightarrow> request" where
  "testRequest c =
     \<lparr>url = stripTrailingSlash (Shhed.endpoint c) @ ''/health'', httpMethod = ''GET'',
      headers = [(''Content-Type'', ''application/json'')]\<rparr>"

definition testTry :: "runtime \<Rightarrow> request \<Rightarrow> event list \<times> (thrown + bool)" where
  "testTry rt req =
     (case fetch rt req of
        Inl t \<Rightarrow> ([Fetch req], Inl t)
      | Inr resp \<Rightarrow>
          ([Fetch req],
           if \<not> ok resp then
             Inl (SdkError \<lparr>message = ''Health check failed: HTTP '' @ showNat (status resp),
                            statusCode = status resp, response = None\<rparr>)
           else Inr True))"

fun testCatch :: "thrown \<Rightarrow> thrown" where
  "testCatch (SdkError e) = SdkError e"
| "testCatch (JsError m) =
     SdkError \<lparr>message = ''Connection test failed: '' @ m, statusCode = 0, response = None\<rparr>"
| "testCatch NonError =
     SdkError \<lparr>message = ''Connection test failed: Unknown error'', statusCode = 0,
               response = None\<rparr>"

definition test :: "runtime \<Rightarrow> Shhed \<Rightarrow> event list \<times> (thrown + bool)" where
  "test rt c =
     (case testTry rt (testRequest c) of
        (evs, Inl t) \<Rightarrow> (evs, Inl (testCatch t))
      | (evs, Inr b) \<Rightarrow> (evs, Inr b))"


section \<open>Requests seen by the transport\<close>

text \<open>The requests among the events of a call, in order.\<close>

fun requests :: "event list \<Rightarrow> request list" where
  "requests [] = []"
| "requests (Fetch r # es) = r # requests es"
| "requests (ReadJson # es) = requests es"


section \<open>Concrete inputs\<close>

text \<open>
  A platform to run the client on concrete inputs. Its \<open>fetch\<close> settles every request to
  the given outcome. Its URL parser accepts the strings that begin with a scheme and a
  colon: like \<^verbatim>\<open>new URL\<close>, it rejects the empty string and \<^verbatim>\<open>invalid-url\<close> and accepts
  \<^verbatim>\<open>http://localhost:8000\<close>, the endpoints of the test suite. Its string conversion is the
  platform's on strings, \<^verbatim>\<open>null\<close>, booleans and objects: an object converts to
  \<^verbatim>\<open>[object Object]\<close>, unless it has a property \<^verbatim>\<open>toString\<close> of its own, which in parsed JSON
  is never a function, so that the object has no primitive value and the conversion throws
  a \<^verbatim>\<open>TypeError\<close>. No example converts a number or an array; there it gives the conversion
  of \<^verbatim>\<open>0\<close> and of the empty array. Its error messages are those of V8.
\<close>

fun exampleToString :: "json \<Rightarrow> thrown + string" where
  "exampleToString (JString s) = Inr s"
| "exampleToString JNull = Inr ''null''"
| "exampleToString (JBool b) = Inr (if b then ''true'' else ''false'')"
| "exampleToString (JObject ps) =
     (if map_of ps ''toString'' = None then Inr ''[object Object]''
      else Inl (JsError ''Cannot convert object to primitive value''))"
| "exampleToString (JNumber n) = Inr ''0''"
| "exampleToString (JArray xs) = Inr []"

definition isSchemeStart :: "char \<Rightarrow> bool" where
  "isSchemeStart c = (c \<in> set ''ABCDEFGHIJKLMNOPQRSTUVWXYZabcdefghijklmnopqrstuvwxyz'')"

definition isSchemeChar :: "char \<Rightarrow> bool" where
  "isSchemeChar c = (isSchemeStart c \<or> c \<in> set ''0123456789+-.'')"

definition exampleParseURL :: "string \<Rightarrow> bool" where
  "exampleParseURL s =
     (case s of
        [] \<Rightarrow> False
      | c # cs \<Rightarrow>
          isSchemeStart c \<and>
          (case dropWhile isSchemeChar cs of [] \<Rightarrow> False | d # ds \<Rightarrow> d = CHR '':''))"

definition exampleRuntime :: "thrown + response \<Rightarrow> runtime" where
  "exampleRuntime outcome =
     \<lparr>fetch = (\<lambda>req. outcome),
      parseURL = exampleParseURL,
      toString = exampleToString,
      nullReadMessage =
        (\<lambda>p. ''Cannot read properties of null (reading '' @ [CHR 0x27] @ p @ [CHR 0x27] @ '')''),
      malformedURIMessage = ''URI malformed''\<rparr>"

text \<open>The two configurations of the test suite, and variants of them.\<close>

definition validConfig :: ShhedConfig where
  "validConfig =
     \<lparr>access_key = ''ak_test123'', secret_key = Some ''secret123'',
      projectId = ''test-project'', endpoint = None\<rparr>"

definition publicConfig :: ShhedConfig where
  "publicConfig =
     \<lparr>access_key = ''ak_test123'', secret_key = None,
      projectId = ''test-project'', endpoint = None\<rparr>"

definition emptySecretConfig :: ShhedConfig where
  "emptySecretConfig =
     \<lparr>access_key = ''ak_test123'', secret_key = Some [],
      projectId = ''test-project'', endpoint = None\<rparr>"

definition emptyEndpointConfig :: ShhedConfig where
  "emptyEndpointConfig =
     \<lparr>access_key = ''ak_test123'', secret_key = Some ''secret123'',
      projectId = ''test-project'', endpoint = Some []\<rparr>"

definition doubleSlashConfig :: ShhedConfig where
  "doubleSlashConfig =
     \<lparr>access_key = ''ak_test123'', secret_key = Some ''secret123'',
      projectId = ''test-project'', endpoint = Some ''http://localhost:8000//''\<rparr>"

definition localConfig :: ShhedConfig where
  "localConfig =
     \<lparr>access_key = ''ak_test123'', secret_key = Some ''secret123'',
      projectId = ''test-project'', endpoint = Some ''http://localhost:8000/''\<rparr>"

text \<open>Configurations the constructor rejects, one for each check.\<close>

definition noAccessKeyConfig :: ShhedConfig where
  "noAccessKeyConfig =
     \<lparr>access_key = [], secret_key = Some ''secret123'', projectId = [],
      endpoint = Some ''invalid-url''\<rparr>"

definition noProjectConfig :: ShhedConfig where
  "noProjectConfig =
     \<lparr>access_key = ''invalid-access-key-format'', secret_key = Some ''secret123'',
      projectId = [], endpoint = Some ''invalid-url''\<rparr>"

definition badPrefixConfig :: ShhedConfig where
  "badPrefixConfig =
     \<lparr>access_key = ''invalid-access-key-format'', secret_key = Some ''secret123'',
      projectId = ''test-project'', endpoint = Some ''invalid-url''\<rparr>"

definition badEndpointConfig :: ShhedConfig where
  "badEndpointConfig =
     \<lparr>access_key = ''ak_test123'', secret_key = Some ''secret123'',
      projectId = ''test-project'', endpoint = Some ''invalid-url''\<rparr>"

text \<open>The clients that the constructor builds from the accepted configurations.\<close>

definition validClient :: Shhed where
  "validClient = \<lparr>config = validConfig, endpoint = ''https://api.shhed.io''\<rparr>"

definition publicClient :: Shhed where
  "publicClient = \<lparr>config = publicConfig, endpoint = ''https://api.shhed.io''\<rparr>"

definition emptySecretClient :: Shhed where
  "emptySecretClient = \<lparr>config = emptySecretConfig, endpoint = ''https://api.shhed.io''\<rparr>"

definition doubleSlashClient :: Shhed where
  "doubleSlashClient = \<lparr>config = doubleSlashConfig, endpoint = ''http://localhost:8000//''\<rparr>"

definition localClient :: Shhed where
  "localClient = \<lparr>config = localConfig, endpoint = ''http://localhost:8000/''\<rparr>"

text \<open>
  The name \<^verbatim>\<open>'A\ud800'\<close>: the letter A followed by a lone surrogate.
\<close>

definition loneSurrogateName :: string where
  "loneSurrogateName = [CHR ''A'', CHR 0xED, CHR 0xA0, CHR 0x80]"

text \<open>Responses: the 404 of the test suite, and others.\<close>

definition notFound :: response where
  "notFound =
     \<lparr>status = 404, statusText = ''Not Found'',
      json = Inr (JObject [(''detail'', JString ''API key not found'')])\<rparr>"

definition notFoundEmptyDetail :: response where
  "notFoundEmptyDetail =
     \<lparr>status = 404, statusText = ''Not Found'',
      json = Inr (JObject [(''detail'', JString [])])\<rparr>"

definition notFoundObjectDetail :: response where
  "notFoundObjectDetail =
     \<lparr>status = 404, statusText = ''Not Found'',
      json = Inr (JObject [(''detail'', JObject [(''toString'', JNumber 0)])])\<rparr>"

definition notFoundNull :: response where
  "notFoundNull = \<lparr>status = 404, statusText = ''Not Found'', json = Inr JNull\<rparr>"

definition okNotJson :: response where
  "okNotJson =
     \<lparr>status = 200, statusText = ''OK'',
      json = Inl (JsError ''Unexpected token < in JSON at position 0'')\<rparr>"

definition serverErrorNoDetail :: response where
  "serverErrorNoDetail =
     \<lparr>status = 500, statusText = ''Internal Server Error'', json = Inr (JObject [])\<rparr>"

definition serverError :: response where
  "serverError =
     \<lparr>status = 500, statusText = ''Internal Server Error'',
      json = Inl (JsError ''Unexpected end of JSON input'')\<rparr>"


section \<open>Basic facts\<close>

lemma startsWith_iff: "startsWith s p \<longleftrightarrow> (\<exists>t. s = p @ t)"
  unfolding startsWith_def
  by (metis append_eq_conv_conj append_take_drop_id)

lemma stripTrailingSlash_slash: "stripTrailingSlash (s @ ''/'') = s"
  by (simp add: stripTrailingSlash_def)

lemma stripTrailingSlash_other:
  "s = [] \<or> last s \<noteq> CHR ''/'' \<Longrightarrow> stripTrailingSlash s = s"
  by (auto simp add: stripTrailingSlash_def)

lemma authToken_cases:
  "authToken cfg =
     (case secret_key cfg of
        None \<Rightarrow> access_key cfg
      | Some sk \<Rightarrow> if sk = [] then access_key cfg else access_key cfg @ '':'' @ sk)"
  by (simp add: authToken_def truthyString_def split: option.splits)

lemma endpointOrDefault_cases:
  "endpointOrDefault cfg =
     (case ShhedConfig.endpoint cfg of
        None \<Rightarrow> ''https://api.shhed.io''
      | Some u \<Rightarrow> if u = [] then ''https://api.shhed.io'' else u)"
  by (simp add: endpointOrDefault_def defaultEndpoint_def truthyString_def split: option.splits)

lemma getProperty_not_null: "body \<noteq> JNull \<Longrightarrow> \<exists>v. getProperty rt body p = Inr v"
  by (cases body) simp_all

subsection \<open>Percent-encoding\<close>

lemma encodeBytes_Nil: "encodeBytes [] = []"
  by (simp add: encodeBytes_def)

lemma encodeBytes_Cons:
  "encodeBytes (c # s) = (if uriUnreserved c then [c] else percentEncode c) @ encodeBytes s"
  by (simp add: encodeBytes_def)

lemma encodeBytes_append: "encodeBytes (s @ t) = encodeBytes s @ encodeBytes t"
  by (simp add: encodeBytes_def)

lemma encodeBytes_unreserved: "list_all uriUnreserved s \<Longrightarrow> encodeBytes s = s"
  by (induction s) (simp_all add: encodeBytes_Nil encodeBytes_Cons)

lemma encodeBytes_examples:
  "encodeBytes ''KEY WITH SPACES'' = ''KEY%20WITH%20SPACES''"
  "encodeBytes ''/?:@&=+$,#%'' = ''%2F%3F%3A%40%26%3D%2B%24%2C%23%25''"
  "encodeBytes ''AZaz09-_.!~*()'' = ''AZaz09-_.!~*()''"
  "encodeBytes [CHR 0xC3, CHR 0xA9] = ''%C3%A9''"
  by (simp_all add: encodeBytes_def uriUnreserved_def percentEncode_def hexDigit_def)

lemma hexDigit_unreserved: "uriUnreserved (hexDigit d)"
proof -
  have "d mod 16 < length ''0123456789ABCDEF''"
    by simp
  then have "hexDigit d \<in> set ''0123456789ABCDEF''"
    unfolding hexDigit_def by (rule nth_mem)
  then show ?thesis
    by (auto simp add: uriUnreserved_def)
qed

text \<open>
  The encoded name is made of unreserved characters and percent signs only; in particular
  it has no slash, and stays within one segment of the path.
\<close>

lemma encodeBytes_chars:
  "c \<in> set (encodeBytes s) \<Longrightarrow> uriUnreserved c \<or> c = CHR ''%''"
  by (induction s)
    (auto simp add: encodeBytes_Nil encodeBytes_Cons percentEncode_def
      hexDigit_unreserved split: if_splits)

lemma encodeBytes_no_slash: "CHR ''/'' \<notin> set (encodeBytes s)"
  using encodeBytes_chars [of "CHR ''/''" s]
  by (auto simp add: uriUnreserved_def)

text \<open>
  A string of ASCII characters has no lone surrogate; the empty string has none; the
  example name has one.
\<close>

lemma hasLoneSurrogate_ascii:
  "list_all (\<lambda>ch. (of_char ch :: nat) < 128) s \<Longrightarrow> \<not> hasLoneSurrogate s"
  by (induction s rule: hasLoneSurrogate.induct) auto

lemma hasLoneSurrogate_examples:
  "\<not> hasLoneSurrogate []"
  "\<not> hasLoneSurrogate ''TEST_KEY''"
  "\<not> hasLoneSurrogate ''KEY WITH SPACES''"
  "hasLoneSurrogate loneSurrogateName"
  by (simp_all add: loneSurrogateName_def)

lemma encodeURIComponent_wellformed:
  "\<not> hasLoneSurrogate s \<Longrightarrow> encodeURIComponent rt s = Inr (encodeBytes s)"
  by (simp add: encodeURIComponent_def)

lemma encodeURIComponent_malformed:
  "hasLoneSurrogate s \<Longrightarrow> encodeURIComponent rt s = Inl (JsError (malformedURIMessage rt))"
  by (simp add: encodeURIComponent_def)

subsection \<open>The constructor\<close>

lemma validateConfig_cases:
  \<open>validateConfig rt cfg =
     (if access_key cfg = [] then Inl (JsError ''Shhed access_key is required'')
      else if projectId cfg = [] then Inl (JsError ''Shhed projectId is required'')
      else if \<nexists>t. access_key cfg = ''ak_'' @ t
        then Inl (JsError ''Shhed access_key must start with "ak_"'')
      else if \<exists>u. ShhedConfig.endpoint cfg = Some u \<and> u \<noteq> [] \<and> \<not> parseURL rt u
        then Inl (JsError ''Shhed endpoint must be a valid URL'')
      else Inr ())\<close>
  by (cases "ShhedConfig.endpoint cfg")
    (simp_all add: validateConfig_def startsWith_iff truthyString_def)


lemma constructor_Inr:
  "constructor rt cfg = Inr c \<Longrightarrow> c = \<lparr>config = cfg, endpoint = endpointOrDefault cfg\<rparr>"
  by (auto simp add: constructor_def split: sum.splits)

lemma exampleParseURL_examples:
  "\<not> exampleParseURL []"
  "\<not> exampleParseURL ''invalid-url''"
  "exampleParseURL ''http://localhost:8000/''"
  by (simp_all add: exampleParseURL_def isSchemeStart_def isSchemeChar_def)

lemma parseURL_exampleRuntime: "parseURL (exampleRuntime outcome) = exampleParseURL"
  by (simp add: exampleRuntime_def)

lemma fetch_exampleRuntime: "fetch (exampleRuntime outcome) req = outcome"
  by (simp add: exampleRuntime_def)

lemma toString_exampleRuntime: "toString (exampleRuntime outcome) = exampleToString"
  by (simp add: exampleRuntime_def)

lemma malformedURIMessage_exampleRuntime:
  "malformedURIMessage (exampleRuntime outcome) = ''URI malformed''"
  by (simp add: exampleRuntime_def)

lemma constructor_validConfig:
  "constructor (exampleRuntime outcome) validConfig = Inr validClient"
  by (simp add: constructor_def validateConfig_def validConfig_def validClient_def
      startsWith_def truthyString_def endpointOrDefault_def defaultEndpoint_def)

lemma constructor_publicConfig:
  "constructor (exampleRuntime outcome) publicConfig = Inr publicClient"
  by (simp add: constructor_def validateConfig_def publicConfig_def publicClient_def
      startsWith_def truthyString_def endpointOrDefault_def defaultEndpoint_def)

lemma constructor_emptySecretConfig:
  "constructor (exampleRuntime outcome) emptySecretConfig = Inr emptySecretClient"
  by (simp add: constructor_def validateConfig_def emptySecretConfig_def emptySecretClient_def
      startsWith_def truthyString_def endpointOrDefault_def defaultEndpoint_def)

lemma constructor_localConfig:
  "constructor (exampleRuntime outcome) localConfig = Inr localClient"
  by (simp add: constructor_def validateConfig_def localConfig_def localClient_def
      startsWith_def truthyString_def endpointOrDefault_def parseURL_exampleRuntime
      exampleParseURL_examples)

lemma constructor_doubleSlashConfig:
  "constructor (exampleRuntime outcome) doubleSlashConfig = Inr doubleSlashClient"
  by (simp add: constructor_def validateConfig_def doubleSlashConfig_def doubleSlashClient_def
      startsWith_def truthyString_def endpointOrDefault_def parseURL_exampleRuntime
      exampleParseURL_def isSchemeStart_def isSchemeChar_def)

subsection \<open>The paths through \<^verbatim>\<open>get\<close>\<close>

lemma getRequest_wellformed:
  "\<not> hasLoneSurrogate keyName \<Longrightarrow>
   getRequest rt c keyName =
     Inr \<lparr>url = stripTrailingSlash (Shhed.endpoint c) @ ''/v1/keys/'' @ encodeBytes keyName,
          httpMethod = ''GET'', headers = getHeaders c\<rparr>"
  by (simp add: getRequest_def getUrl_def encodeURIComponent_wellformed)

lemma getRequest_malformed:
  "hasLoneSurrogate keyName \<Longrightarrow>
   getRequest rt c keyName = Inl (JsError (malformedURIMessage rt))"
  by (simp add: getRequest_def getUrl_def encodeURIComponent_malformed)

lemma getRequest_Inr_iff:
  "(\<exists>req. getRequest rt c keyName = Inr req) \<longleftrightarrow> \<not> hasLoneSurrogate keyName"
  by (cases "hasLoneSurrogate keyName")
    (simp_all add: getRequest_wellformed getRequest_malformed)

lemma getRequest_headers: "getRequest rt c keyName = Inr req \<Longrightarrow> headers req = getHeaders c"
  by (auto simp add: getRequest_def split: sum.splits)

text \<open>
  A name with a lone surrogate: \<^verbatim>\<open>get\<close> throws the \<^verbatim>\<open>URIError\<close> as it is, and no request
  is handed to the transport.
\<close>

lemma get_malformed:
  "hasLoneSurrogate keyName \<Longrightarrow> get rt c keyName = ([], Inl (JsError (malformedURIMessage rt)))"
  by (cases keyName) (simp_all add: get_def getRequest_malformed)

lemma requests_getTry: "requests (fst (getTry rt req)) = [req]"
  by (simp add: getTry_def split: sum.splits)

lemma requests_get:
  "keyName \<noteq> [] \<Longrightarrow> getRequest rt c keyName = Inr req \<Longrightarrow>
   requests (fst (get rt c keyName)) = [req]"
  using requests_getTry [of rt req]
  by (cases "getTry rt req") (auto simp add: get_def split: sum.splits)

lemma requests_get_cases:
  "requests (fst (get rt c keyName)) =
     (if keyName = [] then []
      else case getRequest rt c keyName of Inl t \<Rightarrow> [] | Inr req \<Rightarrow> [req])"
proof (cases "getRequest rt c keyName")
  case (Inl t)
  then show ?thesis by (simp add: get_def)
next
  case (Inr req)
  then show ?thesis
    using requests_get [of keyName rt c req] by (simp add: get_def)
qed


lemma get_fetch_rejected:
  "keyName \<noteq> [] \<Longrightarrow> getRequest rt c keyName = Inr req \<Longrightarrow> fetch rt req = Inl t \<Longrightarrow>
   get rt c keyName = ([Fetch req], Inl (getCatch keyName t))"
  by (simp add: get_def getTry_def)

lemma get_json_rejected:
  "keyName \<noteq> [] \<Longrightarrow> getRequest rt c keyName = Inr req \<Longrightarrow> fetch rt req = Inr resp \<Longrightarrow>
   json resp = Inl t \<Longrightarrow>
   get rt c keyName = ([Fetch req, ReadJson], Inl (getCatch keyName t))"
  by (simp add: get_def getTry_def)

lemma get_not_ok:
  assumes "keyName \<noteq> []"
    and "getRequest rt c keyName = Inr req"
    and "fetch rt req = Inr resp"
    and "json resp = Inr body"
    and "\<not> ok resp"
    and "getProperty rt body ''detail'' = Inr detail"
  shows "get rt c keyName =
     ([Fetch req, ReadJson],
      case ToString rt
             (if truthy detail then the detail
              else JString (''HTTP '' @ showNat (status resp) @ '': '' @ statusText resp)) of
        Inl t \<Rightarrow> Inl (getCatch keyName t)
      | Inr m \<Rightarrow>
          Inl (SdkError \<lparr>message = m, statusCode = status resp, response = Some body\<rparr>))"
  using assms by (simp add: get_def getTry_def newShhedSDKError_def split: sum.splits)

lemma get_ok:
  assumes "keyName \<noteq> []"
    and "getRequest rt c keyName = Inr req"
    and "fetch rt req = Inr resp"
    and "json resp = Inr body"
    and "ok resp"
  shows "get rt c keyName =
     ([Fetch req, ReadJson],
      case getProperty rt body ''key_value'' of
        Inl t \<Rightarrow> Inl (getCatch keyName t)
      | Inr v \<Rightarrow> Inr v)"
  using assms by (simp add: get_def getTry_def split: sum.splits)

lemma getCatch_typed: "\<exists>e. getCatch keyName t = SdkError e"
  by (cases t) simp_all

text \<open>
  Once the request is built, whatever \<^verbatim>\<open>get\<close> throws is a \<^verbatim>\<open>ShhedSDKError\<close>: every error
  of the \<^verbatim>\<open>try\<close> block passes through the \<^verbatim>\<open>catch\<close> block.
\<close>

lemma get_failures_typed:
  assumes "keyName \<noteq> []" and "getRequest rt c keyName = Inr req"
    and "snd (get rt c keyName) = Inl t"
  shows "\<exists>e. t = SdkError e"
proof (cases "getTry rt req")
  case (Pair evs r)
  with assms show ?thesis
    using getCatch_typed by (cases r) (auto simp add: get_def)
qed

lemma getRequest_validClient:
  "getRequest rt validClient ''TEST_KEY'' =
     Inr \<lparr>url = ''https://api.shhed.io/v1/keys/TEST_KEY'', httpMethod = ''GET'',
          headers = [(''Authorization'', ''Bearer ak_test123:secret123''),
                     (''X-Project-ID'', ''test-project''),
                     (''Content-Type'', ''application/json'')]\<rparr>"
  by (simp add: getRequest_wellformed getHeaders_def authToken_def validClient_def
      validConfig_def truthyString_def stripTrailingSlash_def encodeBytes_def
      uriUnreserved_def)

subsection \<open>The paths through \<^verbatim>\<open>test\<close>\<close>

lemma fst_test: "fst (test rt c) = [Fetch (testRequest c)]"
  by (simp add: test_def testTry_def split: sum.splits)

lemma test_fetch_rejected:
  "fetch rt (testRequest c) = Inl t \<Longrightarrow> test rt c = ([Fetch (testRequest c)], Inl (testCatch t))"
  by (simp add: test_def testTry_def)

lemma test_fetch_completed:
  "fetch rt (testRequest c) = Inr resp \<Longrightarrow>
   test rt c =
     ([Fetch (testRequest c)],
      if ok resp then Inr True
      else Inl (SdkError \<lparr>message = ''Health check failed: HTTP '' @ showNat (status resp),
                          statusCode = status resp, response = None\<rparr>))"
  by (simp add: test_def testTry_def)

lemma testCatch_typed: "\<exists>e. testCatch t = SdkError e"
  by (cases t) simp_all

text \<open>Whatever \<^verbatim>\<open>test\<close> throws is a \<^verbatim>\<open>ShhedSDKError\<close>.\<close>

lemma test_failures_typed:
  assumes "snd (test rt c) = Inl t"
  shows "\<exists>e. t = SdkError e"
proof (cases "testTry rt (testRequest c)")
  case (Pair evs r)
  with assms show ?thesis
    using testCatch_typed by (cases r) (auto simp add: test_def)
qed

lemma testRequest_validClient:
  "testRequest validClient =
     \<lparr>url = ''https://api.shhed.io/health'', httpMethod = ''GET'',
      headers = [(''Content-Type'', ''application/json'')]\<rparr>"
  by (simp add: testRequest_def validClient_def stripTrailingSlash_def)

subsection \<open>Decimal digits\<close>

lemma showNat_examples: "showNat 404 = ''404''" "showNat 500 = ''500''" "showNat 0 = ''0''"
  by (simp_all add: showNat.simps digitChar_def)


section \<open>Construction: the four checks\<close>

text \<open>
  Claim C4, with the endpoint check as the code makes it. Construction throws, and builds no
  client, exactly when the access key is empty, or the project identifier is empty, or the
  access key does not start with \<^verbatim>\<open>ak_\<close>, or an endpoint is supplied that is not the
  empty string and does not parse as a URL. The checks are made in this order and the
  first that fails decides the message; the four messages are pairwise different. A
  configuration that passes the four checks is stored unchanged, together with the
  endpoint it supplies, or the default when it supplies none or the empty string.
\<close>

theorem constructor_outcome:
  \<open>((\<exists>e. constructor rt cfg = Inl e) \<longleftrightarrow>
      access_key cfg = [] \<or> projectId cfg = [] \<or> (\<nexists>t. access_key cfg = ''ak_'' @ t)
      \<or> (\<exists>u. ShhedConfig.endpoint cfg = Some u \<and> u \<noteq> [] \<and> \<not> parseURL rt u))
   \<and> (access_key cfg = [] \<longrightarrow>
        constructor rt cfg = Inl (JsError ''Shhed access_key is required''))
   \<and> (access_key cfg \<noteq> [] \<and> projectId cfg = [] \<longrightarrow>
        constructor rt cfg = Inl (JsError ''Shhed projectId is required''))
   \<and> (access_key cfg \<noteq> [] \<and> projectId cfg \<noteq> [] \<and> (\<nexists>t. access_key cfg = ''ak_'' @ t) \<longrightarrow>
        constructor rt cfg = Inl (JsError ''Shhed access_key must start with "ak_"''))
   \<and> (access_key cfg \<noteq> [] \<and> projectId cfg \<noteq> [] \<and> (\<exists>t. access_key cfg = ''ak_'' @ t)
        \<and> (\<exists>u. ShhedConfig.endpoint cfg = Some u \<and> u \<noteq> [] \<and> \<not> parseURL rt u) \<longrightarrow>
        constructor rt cfg = Inl (JsError ''Shhed endpoint must be a valid URL''))
   \<and> (access_key cfg \<noteq> [] \<and> projectId cfg \<noteq> [] \<and> (\<exists>t. access_key cfg = ''ak_'' @ t)
        \<and> (\<nexists>u. ShhedConfig.endpoint cfg = Some u \<and> u \<noteq> [] \<and> \<not> parseURL rt u) \<longrightarrow>
        constructor rt cfg =
          Inr \<lparr>config = cfg,
               endpoint =
                 (case ShhedConfig.endpoint cfg of
                    None \<Rightarrow> ''https://api.shhed.io''
                  | Some u \<Rightarrow> if u = [] then ''https://api.shhed.io'' else u)\<rparr>)
   \<and> distinct [''Shhed access_key is required'', ''Shhed projectId is required'',
        ''Shhed access_key must start with "ak_"'', ''Shhed endpoint must be a valid URL'']\<close>
  unfolding constructor_def validateConfig_cases endpointOrDefault_cases
  by (simp split: option.splits)

text \<open>
  The theorem at five configurations: one failing each check (the first also fails the
  three later checks, the second the two later ones, the third the last one), and one
  passing all four with an endpoint of its own.
\<close>

theorem constructor_outcome_witness:
  \<open>constructor (exampleRuntime (Inr notFound)) noAccessKeyConfig
      = Inl (JsError ''Shhed access_key is required'')
   \<and> constructor (exampleRuntime (Inr notFound)) noProjectConfig
      = Inl (JsError ''Shhed projectId is required'')
   \<and> constructor (exampleRuntime (Inr notFound)) badPrefixConfig
      = Inl (JsError ''Shhed access_key must start with "ak_"'')
   \<and> constructor (exampleRuntime (Inr notFound)) badEndpointConfig
      = Inl (JsError ''Shhed endpoint must be a valid URL'')
   \<and> constructor (exampleRuntime (Inr notFound)) localConfig = Inr localClient\<close>
proof -
  let ?rt = "exampleRuntime (Inr notFound)"
  have 1: "access_key noAccessKeyConfig = []"
    by (simp add: noAccessKeyConfig_def)
  have 2: "access_key noProjectConfig \<noteq> [] \<and> projectId noProjectConfig = []"
    by (simp add: noProjectConfig_def)
  have 3: "access_key badPrefixConfig \<noteq> [] \<and> projectId badPrefixConfig \<noteq> []
      \<and> (\<nexists>t. access_key badPrefixConfig = ''ak_'' @ t)"
    by (simp add: badPrefixConfig_def)
  have 4: "access_key badEndpointConfig \<noteq> [] \<and> projectId badEndpointConfig \<noteq> []
      \<and> (\<exists>t. access_key badEndpointConfig = ''ak_'' @ t)
      \<and> (\<exists>u. ShhedConfig.endpoint badEndpointConfig = Some u \<and> u \<noteq> [] \<and> \<not> parseURL ?rt u)"
    by (simp add: badEndpointConfig_def parseURL_exampleRuntime exampleParseURL_examples)
  have 5: "access_key localConfig \<noteq> [] \<and> projectId localConfig \<noteq> []
      \<and> (\<exists>t. access_key localConfig = ''ak_'' @ t)
      \<and> (\<nexists>u. ShhedConfig.endpoint localConfig = Some u \<and> u \<noteq> [] \<and> \<not> parseURL ?rt u)"
    by (simp add: localConfig_def parseURL_exampleRuntime exampleParseURL_examples)
  show ?thesis
    using constructor_outcome [of ?rt noAccessKeyConfig] 1
      constructor_outcome [of ?rt noProjectConfig] 2
      constructor_outcome [of ?rt badPrefixConfig] 3
      constructor_outcome [of ?rt badEndpointConfig] 4
      constructor_outcome [of ?rt localConfig] 5
    by (simp add: localConfig_def localClient_def)
qed

text \<open>
  Claim C4 as it is written fails where the configuration supplies the empty string as
  endpoint: that string does not parse as a URL, yet \<^verbatim>\<open>if (config.endpoint)\<close> skips the
  check, construction succeeds, and the client uses the default endpoint.
\<close>

theorem constructor_outcome_counterexample:
  "ShhedConfig.endpoint emptyEndpointConfig = Some []
   \<and> \<not> parseURL (exampleRuntime (Inr notFound)) []
   \<and> constructor (exampleRuntime (Inr notFound)) emptyEndpointConfig =
       Inr \<lparr>config = emptyEndpointConfig, endpoint = ''https://api.shhed.io''\<rparr>"
  by (simp add: constructor_def validateConfig_def emptyEndpointConfig_def startsWith_def
      truthyString_def endpointOrDefault_def defaultEndpoint_def parseURL_exampleRuntime
      exampleParseURL_examples)


section \<open>Fetching a secret: the request\<close>

text \<open>
  Claim C6. Called with the empty name, \<^verbatim>\<open>get\<close> causes no event at all (no request is
  handed to the transport) and throws a plain \<^verbatim>\<open>Error\<close>, not a \<^verbatim>\<open>ShhedSDKError\<close>, with
  the message \<^verbatim>\<open>Key name is required\<close>; this holds for every client and every platform.
\<close>

theorem get_empty_name:
  "get rt c [] = ([], Inl (JsError ''Key name is required''))"
  by (simp add: get_def)

theorem get_empty_name_witness:
  "get (exampleRuntime (Inr notFound)) validClient []
     = ([], Inl (JsError ''Key name is required''))"
  by (rule get_empty_name)


text \<open>
  Claim C5, for the names that \<^verbatim>\<open>encodeURIComponent\<close> accepts. For a client built by the
  constructor and a name that is not empty and has no lone surrogate, \<^verbatim>\<open>get\<close> hands
  exactly one request to the transport: a \<^verbatim>\<open>GET\<close> whose URL is the effective base URL
  (the endpoint of the configuration, or the default when the configuration has none or
  an empty one), without one slash at its end if it has one, followed by \<^verbatim>\<open>/v1/keys/\<close>
  and the percent-encoded name. The name \<^verbatim>\<open>KEY WITH SPACES\<close> is encoded as
  \<^verbatim>\<open>KEY%20WITH%20SPACES\<close>; reserved characters and the bytes of a character beyond ASCII
  are encoded, unreserved characters are kept.
\<close>

theorem get_url:
  assumes "constructor rt cfg = Inr c" and "keyName \<noteq> []" and "\<not> hasLoneSurrogate keyName"
  shows "map (\<lambda>r. (httpMethod r, url r)) (requests (fst (get rt c keyName))) =
      [(''GET'',
        stripTrailingSlash
          (case ShhedConfig.endpoint cfg of
             None \<Rightarrow> ''https://api.shhed.io''
           | Some u \<Rightarrow> if u = [] then ''https://api.shhed.io'' else u)
        @ ''/v1/keys/'' @ encodeBytes keyName)]
    \<and> encodeURIComponent rt keyName = Inr (encodeBytes keyName)
    \<and> encodeURIComponent rt ''KEY WITH SPACES'' = Inr ''KEY%20WITH%20SPACES''
    \<and> encodeURIComponent rt ''/?:@&=+$,#%'' = Inr ''%2F%3F%3A%40%26%3D%2B%24%2C%23%25''
    \<and> encodeURIComponent rt ''AZaz09-_.!~*()'' = Inr ''AZaz09-_.!~*()''
    \<and> encodeURIComponent rt [CHR 0xC3, CHR 0xA9] = Inr ''%C3%A9''"
proof -
  from assms(1) have c: "c = \<lparr>config = cfg, endpoint = endpointOrDefault cfg\<rparr>"
    by (rule constructor_Inr)
  from assms(2,3) have "requests (fst (get rt c keyName)) =
      [\<lparr>url = stripTrailingSlash (Shhed.endpoint c) @ ''/v1/keys/'' @ encodeBytes keyName,
        httpMethod = ''GET'', headers = getHeaders c\<rparr>]"
    by (simp add: requests_get getRequest_wellformed)
  then have "map (\<lambda>r. (httpMethod r, url r)) (requests (fst (get rt c keyName))) =
      [(''GET'', stripTrailingSlash (endpointOrDefault cfg) @ ''/v1/keys/''
          @ encodeBytes keyName)]"
    by (simp add: c)
  moreover have "encodeURIComponent rt ''KEY WITH SPACES'' = Inr ''KEY%20WITH%20SPACES''"
    by (simp add: encodeURIComponent_def encodeBytes_examples)
  moreover have "encodeURIComponent rt ''/?:@&=+$,#%'' = Inr ''%2F%3F%3A%40%26%3D%2B%24%2C%23%25''"
    by (simp add: encodeURIComponent_def encodeBytes_examples)
  moreover have "encodeURIComponent rt ''AZaz09-_.!~*()'' = Inr ''AZaz09-_.!~*()''"
    by (simp add: encodeURIComponent_def encodeBytes_examples)
  moreover have "encodeURIComponent rt [CHR 0xC3, CHR 0xA9] = Inr ''%C3%A9''"
    by (simp add: encodeURIComponent_def encodeBytes_examples)
  ultimately show ?thesis
    using assms(3) by (simp add: endpointOrDefault_cases encodeURIComponent_wellformed)
qed

theorem get_url_witness:
  "constructor (exampleRuntime (Inr notFound)) localConfig = Inr localClient
   \<and> map (\<lambda>r. (httpMethod r, url r))
        (requests (fst (get (exampleRuntime (Inr notFound)) localClient ''KEY WITH SPACES''))) =
      [(''GET'', ''http://localhost:8000/v1/keys/KEY%20WITH%20SPACES'')]"
  using get_url [of "exampleRuntime (Inr notFound)" localConfig localClient "''KEY WITH SPACES''"]
    constructor_localConfig [of "Inr notFound"]
  by (simp add: localConfig_def stripTrailingSlash_def encodeBytes_examples)

text \<open>
  Claim C5 as it is written fails at the name \<^verbatim>\<open>'A\ud800'\<close>, which is not empty:
  \<^verbatim>\<open>encodeURIComponent\<close> throws before the \<^verbatim>\<open>try\<close> block, \<^verbatim>\<open>get\<close> throws that \<^verbatim>\<open>URIError\<close>
  and hands no request to the transport. And where the endpoint ends in two slashes, one
  of them remains in the URL.
\<close>

theorem get_url_counterexample:
  "loneSurrogateName \<noteq> []
   \<and> constructor (exampleRuntime (Inr notFound)) validConfig = Inr validClient
   \<and> get (exampleRuntime (Inr notFound)) validClient loneSurrogateName =
       ([], Inl (JsError ''URI malformed''))
   \<and> constructor (exampleRuntime (Inr notFound)) doubleSlashConfig = Inr doubleSlashClient
   \<and> map url (requests (fst (get (exampleRuntime (Inr notFound)) doubleSlashClient ''TEST_KEY'')))
       = [''http://localhost:8000//v1/keys/TEST_KEY'']"
proof -
  have "get (exampleRuntime (Inr notFound)) validClient loneSurrogateName =
       ([], Inl (JsError ''URI malformed''))"
    by (simp add: get_malformed hasLoneSurrogate_examples malformedURIMessage_exampleRuntime)
  moreover have
    "map url (requests (fst (get (exampleRuntime (Inr notFound)) doubleSlashClient ''TEST_KEY'')))
       = [''http://localhost:8000//v1/keys/TEST_KEY'']"
    by (simp add: requests_get getRequest_wellformed doubleSlashClient_def
        stripTrailingSlash_def encodeBytes_def uriUnreserved_def)
  ultimately show ?thesis
    by (simp add: constructor_validConfig constructor_doubleSlashConfig loneSurrogateName_def)
qed

text \<open>
  Claim C2, with the choice of the credential as the code makes it. For a client built by
  the constructor, every request that \<^verbatim>\<open>get\<close> hands to the transport carries exactly the
  headers \<^verbatim>\<open>Authorization\<close>, \<^verbatim>\<open>X-Project-ID\<close> (the project identifier of the configuration)
  and \<^verbatim>\<open>Content-Type: application/json\<close>; the value of \<^verbatim>\<open>Authorization\<close> is
  \<^verbatim>\<open>Bearer {accessKey}:{secretKey}\<close> when the configuration supplies a secret key that is
  not the empty string, and \<^verbatim>\<open>Bearer {accessKey}\<close> when it supplies none or the empty
  string. For a name that is not empty and has no lone surrogate there is exactly one
  such request.
\<close>

theorem get_headers:
  assumes "constructor rt cfg = Inr c"
  shows "(\<forall>req \<in> set (requests (fst (get rt c keyName))).
      headers req =
        [(''Authorization'',
           ''Bearer '' @
             (case secret_key cfg of
                None \<Rightarrow> access_key cfg
              | Some sk \<Rightarrow> if sk = [] then access_key cfg else access_key cfg @ '':'' @ sk)),
         (''X-Project-ID'', projectId cfg),
         (''Content-Type'', ''application/json'')])
    \<and> (keyName \<noteq> [] \<and> \<not> hasLoneSurrogate keyName \<longrightarrow>
      map headers (requests (fst (get rt c keyName))) =
        [[(''Authorization'',
             ''Bearer '' @
               (case secret_key cfg of
                  None \<Rightarrow> access_key cfg
                | Some sk \<Rightarrow> if sk = [] then access_key cfg else access_key cfg @ '':'' @ sk)),
          (''X-Project-ID'', projectId cfg),
          (''Content-Type'', ''application/json'')]])"
proof -
  from assms have c: "c = \<lparr>config = cfg, endpoint = endpointOrDefault cfg\<rparr>"
    by (rule constructor_Inr)
  have h: "getHeaders c =
        [(''Authorization'',
           ''Bearer '' @
             (case secret_key cfg of
                None \<Rightarrow> access_key cfg
              | Some sk \<Rightarrow> if sk = [] then access_key cfg else access_key cfg @ '':'' @ sk)),
         (''X-Project-ID'', projectId cfg),
         (''Content-Type'', ''application/json'')]"
    by (simp add: c getHeaders_def authToken_cases)
  have every: "\<forall>req \<in> set (requests (fst (get rt c keyName))). headers req = getHeaders c"
    by (auto simp add: requests_get_cases getRequest_headers split: if_splits sum.splits)
  have one: "keyName \<noteq> [] \<and> \<not> hasLoneSurrogate keyName \<longrightarrow>
      map headers (requests (fst (get rt c keyName))) = [getHeaders c]"
    by (simp add: requests_get getRequest_wellformed)
  from every one show ?thesis
    unfolding h by blast
qed

theorem get_headers_witness:
  "constructor (exampleRuntime (Inr notFound)) validConfig = Inr validClient
   \<and> map headers (requests (fst (get (exampleRuntime (Inr notFound)) validClient ''TEST_KEY''))) =
      [[(''Authorization'', ''Bearer ak_test123:secret123''),
        (''X-Project-ID'', ''test-project''),
        (''Content-Type'', ''application/json'')]]
   \<and> constructor (exampleRuntime (Inr notFound)) publicConfig = Inr publicClient
   \<and> map headers (requests (fst (get (exampleRuntime (Inr notFound)) publicClient ''TEST_KEY''))) =
      [[(''Authorization'', ''Bearer ak_test123''),
        (''X-Project-ID'', ''test-project''),
        (''Content-Type'', ''application/json'')]]"
  using get_headers [of "exampleRuntime (Inr notFound)" validConfig validClient "''TEST_KEY''"]
    get_headers [of "exampleRuntime (Inr notFound)" publicConfig publicClient "''TEST_KEY''"]
    constructor_validConfig [of "Inr notFound"] constructor_publicConfig [of "Inr notFound"]
  by (simp add: validConfig_def publicConfig_def)

text \<open>
  Claim C2 as it is written fails where the configuration supplies the empty string as
  secret key: a secret key is supplied, yet the header is \<^verbatim>\<open>Bearer ak_test123\<close> and not
  \<^verbatim>\<open>Bearer ak_test123:\<close>.
\<close>

theorem get_headers_counterexample:
  "secret_key emptySecretConfig = Some []
   \<and> constructor (exampleRuntime (Inr notFound)) emptySecretConfig = Inr emptySecretClient
   \<and> map headers
        (requests (fst (get (exampleRuntime (Inr notFound)) emptySecretClient ''TEST_KEY''))) =
      [[(''Authorization'', ''Bearer ak_test123''),
        (''X-Project-ID'', ''test-project''),
        (''Content-Type'', ''application/json'')]]
   \<and> map headers
        (requests (fst (get (exampleRuntime (Inr notFound)) emptySecretClient ''TEST_KEY''))) \<noteq>
      [[(''Authorization'', ''Bearer ak_test123:''),
        (''X-Project-ID'', ''test-project''),
        (''Content-Type'', ''application/json'')]]"
proof -
  have "map headers
        (requests (fst (get (exampleRuntime (Inr notFound)) emptySecretClient ''TEST_KEY''))) =
      [[(''Authorization'', ''Bearer ak_test123''),
        (''X-Project-ID'', ''test-project''),
        (''Content-Type'', ''application/json'')]]"
    by (simp add: requests_get getRequest_wellformed emptySecretConfig_def emptySecretClient_def
        truthyString_def getHeaders_def authToken_def)
  moreover have "secret_key emptySecretConfig = Some []"
    by (simp add: emptySecretConfig_def)
  ultimately show ?thesis
    by (simp add: constructor_emptySecretConfig)
qed




section \<open>Fetching a secret: the outcomes\<close>

text \<open>
  Claim C7. When the transport throws instead of completing the request of \<^verbatim>\<open>get\<close>, and
  what it throws is not itself a \<^verbatim>\<open>ShhedSDKError\<close>, \<^verbatim>\<open>get\<close> throws a \<^verbatim>\<open>ShhedSDKError\<close> with
  status code 0 and no response, whose message is \<^verbatim>\<open>Failed to fetch key "{name}": \<close>
  followed by the message of the transport's error (by \<^verbatim>\<open>Unknown error\<close> when the thrown
  value is no \<^verbatim>\<open>Error\<close> and has no message). The body is never read.
\<close>

theorem get_transport_failure:
  assumes "keyName \<noteq> []"
    and "getRequest rt c keyName = Inr req"
    and "fetch rt req = Inl t"
    and "\<forall>e. t \<noteq> SdkError e"
  shows \<open>get rt c keyName =
    ([Fetch req],
     Inl (SdkError
       \<lparr>message = ''Failed to fetch key "'' @ keyName @ ''": ''
            @ (case t of JsError m \<Rightarrow> m | _ \<Rightarrow> ''Unknown error''),
        statusCode = 0, response = None\<rparr>))\<close>
  using assms by (cases t) (simp_all add: get_fetch_rejected)

theorem get_transport_failure_witness:
  \<open>get (exampleRuntime (Inl (JsError ''Network error''))) validClient ''TEST_KEY'' =
    ([Fetch \<lparr>url = ''https://api.shhed.io/v1/keys/TEST_KEY'', httpMethod = ''GET'',
             headers = [(''Authorization'', ''Bearer ak_test123:secret123''),
                        (''X-Project-ID'', ''test-project''),
                        (''Content-Type'', ''application/json'')]\<rparr>],
     Inl (SdkError
       \<lparr>message = ''Failed to fetch key "TEST_KEY": Network error'',
        statusCode = 0, response = None\<rparr>))\<close>
  using get_transport_failure [OF _ getRequest_validClient,
      of "exampleRuntime (Inl (JsError ''Network error''))" "JsError ''Network error''"]
  by (simp add: fetch_exampleRuntime)

text \<open>
  Claim C3, as the code behaves. When the request of \<^verbatim>\<open>get\<close> completes and
  \<^verbatim>\<open>response.json()\<close> throws because the body is not valid JSON, the error is caught by
  the \<^verbatim>\<open>catch\<close> block of \<^verbatim>\<open>get\<close> and wrapped: \<^verbatim>\<open>get\<close> throws a \<^verbatim>\<open>ShhedSDKError\<close> with status
  code 0 and no response, whose message is \<^verbatim>\<open>Failed to fetch key "{name}": \<close> followed by
  the message of the parsing error. This holds whatever the status of the response is.
\<close>

theorem get_invalid_json:
  assumes "keyName \<noteq> []"
    and "getRequest rt c keyName = Inr req"
    and "fetch rt req = Inr resp"
    and "json resp = Inl t"
    and "\<forall>e. t \<noteq> SdkError e"
  shows \<open>get rt c keyName =
    ([Fetch req, ReadJson],
     Inl (SdkError
       \<lparr>message = ''Failed to fetch key "'' @ keyName @ ''": ''
            @ (case t of JsError m \<Rightarrow> m | _ \<Rightarrow> ''Unknown error''),
        statusCode = 0, response = None\<rparr>))\<close>
  using assms by (cases t) (simp_all add: get_json_rejected)

theorem get_invalid_json_witness:
  \<open>get (exampleRuntime (Inr okNotJson)) validClient ''TEST_KEY'' =
    ([Fetch \<lparr>url = ''https://api.shhed.io/v1/keys/TEST_KEY'', httpMethod = ''GET'',
             headers = [(''Authorization'', ''Bearer ak_test123:secret123''),
                        (''X-Project-ID'', ''test-project''),
                        (''Content-Type'', ''application/json'')]\<rparr>,
      ReadJson],
     Inl (SdkError
       \<lparr>message = ''Failed to fetch key "TEST_KEY": Unexpected token < in JSON at position 0'',
        statusCode = 0, response = None\<rparr>))\<close>
  using get_invalid_json [OF _ getRequest_validClient,
      of "exampleRuntime (Inr okNotJson)" okNotJson
      "JsError ''Unexpected token < in JSON at position 0''"]
  by (simp add: fetch_exampleRuntime okNotJson_def)

text \<open>
  Claim C3 as it is written fails: on a response whose body is not valid JSON, what
  \<^verbatim>\<open>get\<close> throws is not the parsing error of \<^verbatim>\<open>response.json()\<close> but a \<^verbatim>\<open>ShhedSDKError\<close>
  built from it.
\<close>

theorem get_invalid_json_counterexample:
  \<open>json okNotJson = Inl (JsError ''Unexpected token < in JSON at position 0'')
   \<and> snd (get (exampleRuntime (Inr okNotJson)) validClient ''TEST_KEY'')
       \<noteq> Inl (JsError ''Unexpected token < in JSON at position 0'')
   \<and> snd (get (exampleRuntime (Inr okNotJson)) validClient ''TEST_KEY'') =
       Inl (SdkError
         \<lparr>message = ''Failed to fetch key "TEST_KEY": Unexpected token < in JSON at position 0'',
          statusCode = 0, response = None\<rparr>)\<close>
  by (simp add: get_def getRequest_validClient getTry_def fetch_exampleRuntime okNotJson_def)

text \<open>
  Claim C1, restricted to the bodies on which the code builds the failure from the
  response. Let the request of \<^verbatim>\<open>get\<close> complete with a status outside 200..299 and a body
  that parses as a JSON value other than \<^verbatim>\<open>null\<close>. When the body has no \<^verbatim>\<open>detail\<close> or a
  falsy one (the empty string, \<^verbatim>\<open>null\<close>, \<^verbatim>\<open>false\<close>, \<^verbatim>\<open>0\<close>), \<^verbatim>\<open>get\<close> throws a
  \<^verbatim>\<open>ShhedSDKError\<close> whose message is \<^verbatim>\<open>HTTP {status}: {statusText}\<close>, whose status code is
  the status of the response and whose response is the whole parsed body. When the
  \<^verbatim>\<open>detail\<close> is a string that is not empty, \<^verbatim>\<open>get\<close> throws a \<^verbatim>\<open>ShhedSDKError\<close> with that
  string as message and the same status code and response. When the \<^verbatim>\<open>detail\<close> is another
  truthy value and its string conversion returns, \<^verbatim>\<open>get\<close> throws a \<^verbatim>\<open>ShhedSDKError\<close> with
  the converted string as message and the same status code and response. Nothing is
  stated for the body \<^verbatim>\<open>null\<close> and for a \<^verbatim>\<open>detail\<close> whose string conversion throws.
\<close>

theorem get_error_response:
  assumes "keyName \<noteq> []"
    and "getRequest rt c keyName = Inr req"
    and "fetch rt req = Inr resp"
    and "\<not> (200 \<le> status resp \<and> status resp \<le> 299)"
    and "json resp = Inr body"
    and "body \<noteq> JNull"
  shows "\<exists>detail. getProperty rt body ''detail'' = Inr detail \<and>
    (\<not> truthy detail \<longrightarrow>
       get rt c keyName =
         ([Fetch req, ReadJson],
          Inl (SdkError
            \<lparr>message = ''HTTP '' @ showNat (status resp) @ '': '' @ statusText resp,
             statusCode = status resp, response = Some body\<rparr>)))
    \<and> (\<forall>s. detail = Some (JString s) \<and> s \<noteq> [] \<longrightarrow>
       get rt c keyName =
         ([Fetch req, ReadJson],
          Inl (SdkError \<lparr>message = s, statusCode = status resp, response = Some body\<rparr>)))
    \<and> (\<forall>d m. detail = Some d \<and> truthy detail \<and> ToString rt d = Inr m \<longrightarrow>
       get rt c keyName =
         ([Fetch req, ReadJson],
          Inl (SdkError \<lparr>message = m, statusCode = status resp, response = Some body\<rparr>)))"
proof -
  from assms(6) obtain detail where d: "getProperty rt body ''detail'' = Inr detail"
    using getProperty_not_null by blast
  from assms(4) have n: "\<not> ok resp"
    by (simp add: ok_def)
  note path = get_not_ok [OF assms(1) assms(2) assms(3) assms(5) n d]
  have falsy: "\<not> truthy detail \<longrightarrow>
       get rt c keyName =
         ([Fetch req, ReadJson],
          Inl (SdkError
            \<lparr>message = ''HTTP '' @ showNat (status resp) @ '': '' @ statusText resp,
             statusCode = status resp, response = Some body\<rparr>))"
    by (simp add: path)
  have converted: "\<forall>d m. detail = Some d \<and> truthy detail \<and> ToString rt d = Inr m \<longrightarrow>
       get rt c keyName =
         ([Fetch req, ReadJson],
          Inl (SdkError \<lparr>message = m, statusCode = status resp, response = Some body\<rparr>))"
    by (auto simp add: path)
  have nonempty: "\<forall>s. detail = Some (JString s) \<and> s \<noteq> [] \<longrightarrow>
       get rt c keyName =
         ([Fetch req, ReadJson],
          Inl (SdkError \<lparr>message = s, statusCode = status resp, response = Some body\<rparr>))"
  proof (intro allI impI)
    fix s
    assume "detail = Some (JString s) \<and> s \<noteq> []"
    then have "detail = Some (JString s) \<and> truthy detail \<and> ToString rt (JString s) = Inr s"
      by simp
    with converted show "get rt c keyName =
         ([Fetch req, ReadJson],
          Inl (SdkError \<lparr>message = s, statusCode = status resp, response = Some body\<rparr>))"
      by blast
  qed
  from d falsy nonempty converted show ?thesis
    by blast
qed

text \<open>
  The theorem at the 404 of the test suite, whose body is
  \<^verbatim>\<open>{ detail: "API key not found" }\<close>, and at a 500 whose body is an empty object.
\<close>

theorem get_error_response_witness:
  "get (exampleRuntime (Inr notFound)) validClient ''TEST_KEY'' =
      ([Fetch \<lparr>url = ''https://api.shhed.io/v1/keys/TEST_KEY'', httpMethod = ''GET'',
               headers = [(''Authorization'', ''Bearer ak_test123:secret123''),
                          (''X-Project-ID'', ''test-project''),
                          (''Content-Type'', ''application/json'')]\<rparr>,
        ReadJson],
       Inl (SdkError
         \<lparr>message = ''API key not found'', statusCode = 404,
          response = Some (JObject [(''detail'', JString ''API key not found'')])\<rparr>))
   \<and> get (exampleRuntime (Inr serverErrorNoDetail)) validClient ''TEST_KEY'' =
      ([Fetch \<lparr>url = ''https://api.shhed.io/v1/keys/TEST_KEY'', httpMethod = ''GET'',
               headers = [(''Authorization'', ''Bearer ak_test123:secret123''),
                          (''X-Project-ID'', ''test-project''),
                          (''Content-Type'', ''application/json'')]\<rparr>,
        ReadJson],
       Inl (SdkError
         \<lparr>message = ''HTTP 500: Internal Server Error'', statusCode = 500,
          response = Some (JObject [])\<rparr>))"
  using get_error_response [OF _ getRequest_validClient,
      of "exampleRuntime (Inr notFound)" notFound
      "JObject [(''detail'', JString ''API key not found'')]"]
    get_error_response [OF _ getRequest_validClient,
      of "exampleRuntime (Inr serverErrorNoDetail)" serverErrorNoDetail "JObject []"]
  by (simp add: fetch_exampleRuntime notFound_def serverErrorNoDetail_def showNat_examples)

text \<open>
  Claim C1 as it is written fails at three responses with status 404. Where the body is
  \<^verbatim>\<open>{ detail: "" }\<close>, the \<^verbatim>\<open>detail\<close> is present, yet the message is the synthesized
  \<^verbatim>\<open>HTTP 404: Not Found\<close>. Where the body is \<^verbatim>\<open>null\<close>, which is valid JSON, reading
  \<^verbatim>\<open>error.detail\<close> throws inside the \<^verbatim>\<open>try\<close> block, and the \<^verbatim>\<open>catch\<close> block turns that into
  a failure with status code 0 and no response. Where the body is
  \<^verbatim>\<open>{ detail: { toString: 0 } }\<close>, the \<^verbatim>\<open>detail\<close> is truthy and has no string conversion: the
  constructor of the error throws inside the \<^verbatim>\<open>try\<close> block, and the \<^verbatim>\<open>catch\<close> block again
  gives status code 0 and no response.
\<close>

theorem get_error_response_counterexample:
  \<open>snd (get (exampleRuntime (Inr notFoundEmptyDetail)) validClient ''TEST_KEY'') =
     Inl (SdkError
       \<lparr>message = ''HTTP 404: Not Found'', statusCode = 404,
        response = Some (JObject [(''detail'', JString [])])\<rparr>)
   \<and> snd (get (exampleRuntime (Inr notFoundNull)) validClient ''TEST_KEY'') =
     Inl (SdkError
       \<lparr>message = ''Failed to fetch key "TEST_KEY": ''
            @ nullReadMessage (exampleRuntime (Inr notFoundNull)) ''detail'',
        statusCode = 0, response = None\<rparr>)
   \<and> snd (get (exampleRuntime (Inr notFoundObjectDetail)) validClient ''TEST_KEY'') =
     Inl (SdkError
       \<lparr>message = ''Failed to fetch key "TEST_KEY": Cannot convert object to primitive value'',
        statusCode = 0, response = None\<rparr>)\<close>
proof -
  have 1: \<open>snd (get (exampleRuntime (Inr notFoundEmptyDetail)) validClient ''TEST_KEY'') =
     Inl (SdkError
       \<lparr>message = ''HTTP 404: Not Found'', statusCode = 404,
        response = Some (JObject [(''detail'', JString [])])\<rparr>)\<close>
    by (simp add: get_def getRequest_validClient getTry_def newShhedSDKError_def
        fetch_exampleRuntime notFoundEmptyDetail_def ok_def showNat_examples)
  have 2: \<open>snd (get (exampleRuntime (Inr notFoundNull)) validClient ''TEST_KEY'') =
     Inl (SdkError
       \<lparr>message = ''Failed to fetch key "TEST_KEY": ''
            @ nullReadMessage (exampleRuntime (Inr notFoundNull)) ''detail'',
        statusCode = 0, response = None\<rparr>)\<close>
    by (simp add: get_def getRequest_validClient getTry_def fetch_exampleRuntime
        notFoundNull_def ok_def)
  have 3: \<open>snd (get (exampleRuntime (Inr notFoundObjectDetail)) validClient ''TEST_KEY'') =
     Inl (SdkError
       \<lparr>message = ''Failed to fetch key "TEST_KEY": Cannot convert object to primitive value'',
        statusCode = 0, response = None\<rparr>)\<close>
    by (simp add: get_def getRequest_validClient getTry_def newShhedSDKError_def
        toString_exampleRuntime fetch_exampleRuntime notFoundObjectDetail_def ok_def)
  from 1 2 3 show ?thesis
    by simp
qed

section \<open>The health check\<close>

text \<open>
  Claim C8. The only event of \<^verbatim>\<open>test\<close> is its request: the body of the response is never
  read. When the request completes with a status in 200..299, \<^verbatim>\<open>test\<close> returns
  \<^verbatim>\<open>true\<close>, whatever the body. When it completes with another status, \<^verbatim>\<open>test\<close> throws a
  \<^verbatim>\<open>ShhedSDKError\<close> with that status as status code and the message
  \<^verbatim>\<open>Health check failed: HTTP {status}\<close>. When the transport throws (something that is not
  itself a \<^verbatim>\<open>ShhedSDKError\<close>), \<^verbatim>\<open>test\<close> throws a \<^verbatim>\<open>ShhedSDKError\<close> with status code 0 and
  the message \<^verbatim>\<open>Connection test failed: \<close> followed by the message of the transport's error
  (by \<^verbatim>\<open>Unknown error\<close> when the thrown value is no \<^verbatim>\<open>Error\<close>).
\<close>

theorem test_outcomes:
  "(fetch rt (testRequest c) = Inr resp \<and> 200 \<le> status resp \<and> status resp \<le> 299 \<longrightarrow>
      test rt c = ([Fetch (testRequest c)], Inr True))
   \<and> (fetch rt (testRequest c) = Inr resp \<and> \<not> (200 \<le> status resp \<and> status resp \<le> 299) \<longrightarrow>
      test rt c =
        ([Fetch (testRequest c)],
         Inl (SdkError \<lparr>message = ''Health check failed: HTTP '' @ showNat (status resp),
                        statusCode = status resp, response = None\<rparr>)))
   \<and> (fetch rt (testRequest c) = Inl t \<and> (\<forall>e. t \<noteq> SdkError e) \<longrightarrow>
      test rt c =
        ([Fetch (testRequest c)],
         Inl (SdkError
           \<lparr>message = ''Connection test failed: ''
                @ (case t of JsError m \<Rightarrow> m | _ \<Rightarrow> ''Unknown error''),
            statusCode = 0, response = None\<rparr>)))"
proof (intro conjI impI)
  assume "fetch rt (testRequest c) = Inr resp \<and> 200 \<le> status resp \<and> status resp \<le> 299"
  then show "test rt c = ([Fetch (testRequest c)], Inr True)"
    by (simp add: test_fetch_completed ok_def)
next
  assume "fetch rt (testRequest c) = Inr resp \<and> \<not> (200 \<le> status resp \<and> status resp \<le> 299)"
  then show "test rt c =
        ([Fetch (testRequest c)],
         Inl (SdkError \<lparr>message = ''Health check failed: HTTP '' @ showNat (status resp),
                        statusCode = status resp, response = None\<rparr>))"
    by (simp add: test_fetch_completed ok_def)
next
  assume "fetch rt (testRequest c) = Inl t \<and> (\<forall>e. t \<noteq> SdkError e)"
  then show "test rt c =
        ([Fetch (testRequest c)],
         Inl (SdkError
           \<lparr>message = ''Connection test failed: ''
                @ (case t of JsError m \<Rightarrow> m | _ \<Rightarrow> ''Unknown error''),
            statusCode = 0, response = None\<rparr>))"
    by (cases t) (simp_all add: test_fetch_rejected)
qed

text \<open>
  The theorem at a 200 whose body is not valid JSON, at a 500, and at a transport that
  throws.
\<close>

theorem test_outcomes_witness:
  "test (exampleRuntime (Inr okNotJson)) validClient = ([Fetch (testRequest validClient)], Inr True)
   \<and> test (exampleRuntime (Inr serverError)) validClient =
       ([Fetch (testRequest validClient)],
        Inl (SdkError \<lparr>message = ''Health check failed: HTTP 500'', statusCode = 500,
                       response = None\<rparr>))
   \<and> test (exampleRuntime (Inl (JsError ''Network error''))) validClient =
       ([Fetch (testRequest validClient)],
        Inl (SdkError \<lparr>message = ''Connection test failed: Network error'', statusCode = 0,
                       response = None\<rparr>))"
  using test_outcomes [of "exampleRuntime (Inr okNotJson)" validClient okNotJson NonError]
    test_outcomes [of "exampleRuntime (Inr serverError)" validClient serverError NonError]
    test_outcomes [of "exampleRuntime (Inl (JsError ''Network error''))" validClient okNotJson
      "JsError ''Network error''"]
  by (simp add: fetch_exampleRuntime okNotJson_def serverError_def showNat_examples)

text \<open>
  Claim C9. Whatever the client (so also when its configuration holds a secret key) and
  whatever the platform, \<^verbatim>\<open>test\<close> hands exactly one request to the transport, whose only
  header is \<^verbatim>\<open>Content-Type: application/json\<close>; it has no \<^verbatim>\<open>Authorization\<close> header.
\<close>

theorem test_sends_no_authorization:
  "map headers (requests (fst (test rt c))) = [[(''Content-Type'', ''application/json'')]]
   \<and> map (\<lambda>r. map_of (headers r) ''Authorization'') (requests (fst (test rt c))) = [None]"
  by (simp add: fst_test testRequest_def)

theorem test_sends_no_authorization_witness:
  "secret_key (config validClient) = Some ''secret123''
   \<and> map headers (requests (fst (test (exampleRuntime (Inr okNotJson)) validClient)))
       = [[(''Content-Type'', ''application/json'')]]
   \<and> map (\<lambda>r. map_of (headers r) ''Authorization'')
        (requests (fst (test (exampleRuntime (Inr okNotJson)) validClient))) = [None]"
  using test_sends_no_authorization [of "exampleRuntime (Inr okNotJson)" validClient]
  by (simp add: validClient_def validConfig_def)

end
